theory Spec2Isabelle
  imports Main "HOL-Library.Word"
begin

section \<open>The conversation-history hook \<open>useHistory\<close>\<close>

text \<open>
  A shallow embedding of the React hook \<open>useHistory\<close>: its state, its actions, the
  markdown export and the filename helper. The hook's \<open>useState\<close> cells are the fields
  of one record; everything an action does beyond updating them (calls of the
  conversation store, \<open>conversationDeleted\<close> broadcasts, timers armed with
  \<open>setTimeout\<close>, files handed to the browser, \<open>console.error\<close>) is appended to a
  second record of effects. What the outside world answers (whether a store call
  throws, what the locale formats a date to) is an argument of the action.
  An action runs to completion before the next one starts; the one asynchronous
  action whose intermediate state a property below speaks of, the refresh, is split
  at its \<open>await\<close>.
\<close>

subsection \<open>Strings\<close>

text \<open>
  A JavaScript string is a sequence of UTF-16 code units; \<open>length\<close>, \<open>substring\<close> and a
  regular expression without the \<open>u\<close> flag all count code units.
\<close>

type_synonym code_unit = "16 word"
type_synonym jsstring = "code_unit list"

abbreviation js :: "string \<Rightarrow> jsstring" where
  "js s \<equiv> map of_char s"

text \<open>
  The template literal \<open>${n}\<close> of a non-negative integer: its decimal digits.
\<close>

fun show_nat :: "nat \<Rightarrow> jsstring" where
  "show_nat n =
     (if n < 10 then [of_nat (48 + n)]
      else show_nat (n div 10) @ [of_nat (48 + n mod 10)])"

declare show_nat.simps [simp del]

text \<open>
  The character class \<open>[a-z0-9]\<close> under the \<open>i\<close> flag. Without the \<open>u\<close> flag a code
  unit of 128 or more is never folded onto an ASCII letter, so the class holds the
  ASCII digits and the ASCII letters of both cases and nothing else.
\<close>

definition in_az09_i :: "code_unit \<Rightarrow> bool" where
  "in_az09_i c =
     ((0x61 \<le> c \<and> c \<le> 0x7A) \<or> (0x30 \<le> c \<and> c \<le> 0x39) \<or> (0x41 \<le> c \<and> c \<le> 0x5A))"

text \<open>\<open>title.replace(/[^a-z0-9]/gi, "_")\<close>: every match, left to right.\<close>

fun replace_non_az09 :: "jsstring \<Rightarrow> jsstring" where
  "replace_non_az09 [] = []"
| "replace_non_az09 (c # cs) =
     (if \<not> in_az09_i c then js ''_'' @ replace_non_az09 cs
      else c # replace_non_az09 cs)"

text \<open>
  \<open>toLowerCase\<close> on ASCII: the letters \<open>A\<close> to \<open>Z\<close> move to \<open>a\<close> to \<open>z\<close>. The only
  string it is applied to is the result of the replacement above, every code unit
  of which is an ASCII letter, a digit or \<open>_\<close>.
\<close>

definition lower_unit :: "code_unit \<Rightarrow> code_unit" where
  "lower_unit c = (if 0x41 \<le> c \<and> c \<le> 0x5A then c + 0x20 else c)"

definition toLowerCase :: "jsstring \<Rightarrow> jsstring" where
  "toLowerCase s = map lower_unit s"

text \<open>
  \<open>s.substring(start, end)\<close> for non-negative integers: both are clamped to the
  length and swapped when out of order.
\<close>

definition substring :: "jsstring \<Rightarrow> nat \<Rightarrow> nat \<Rightarrow> jsstring" where
  "substring s start end' =
     (let a = min start (length s); b = min end' (length s);
          from = min a b; to = max a b
      in take (to - from) (drop from s))"

definition generateFilename :: "jsstring \<Rightarrow> jsstring" where
  "generateFilename title' =
     (let sanitizedTitle = toLowerCase (replace_non_az09 title')
      in substring sanitizedTitle 0 16 @ js ''.md'')"

text \<open>
  The filename as the specification words it: replace, lower-case, truncate, append.
\<close>

definition filename_spec :: "jsstring \<Rightarrow> jsstring" where
  "filename_spec title' =
     take 16 (map lower_unit (map (\<lambda>c. if in_az09_i c then c else 0x5F) title')) @ js ''.md''"

subsection \<open>Conversations\<close>

text \<open>
  \<open>ChatConversation\<close> is declared in \<open>@/types/completion\<close>; the hook reads the fields
  below. The two time stamps are whatever \<open>new Date(...)\<close> accepts and are only
  handed to the locale.
\<close>

record message =
  role :: jsstring
  content :: jsstring

record conversation =
  conv_id :: jsstring
  title :: jsstring
  createdAt :: nat
  updatedAt :: nat
  messages :: "message list"

datatype error = StoreError | ExportError

text \<open>
  What the platform answers during an export: the locale's rendering of a date,
  \<open>String.prototype.toUpperCase\<close>, whether building the document throws (the stored
  value not having the declared shape), and whether the save (blob, object URL,
  link click) goes through for a given file name and content.
\<close>

record platform =
  toLocaleString :: "nat \<Rightarrow> jsstring"
  toUpperCase :: "jsstring \<Rightarrow> jsstring"
  markdown_throws :: "conversation \<Rightarrow> bool"
  saveTextFile :: "jsstring \<Rightarrow> jsstring \<Rightarrow> bool"

subsection \<open>Markdown export\<close>

text \<open>
  The \<open>forEach\<close> over the messages, with its index and the string built so far;
  \<open>n\<close> is \<open>conversation.messages.length\<close>.
\<close>

fun forEach_message :: "platform \<Rightarrow> nat \<Rightarrow> nat \<Rightarrow> message list \<Rightarrow> jsstring \<Rightarrow> jsstring" where
  "forEach_message p n index [] markdown = markdown"
| "forEach_message p n index (m # ms) markdown =
     (let roleLabel = toUpperCase p (role m);
          markdown1 = markdown @ js ''## '' @ roleLabel @ js '': '' @ content m @ js ''\<newline>'';
          markdown2 = (if int index < int n - 1 then markdown1 @ js ''\<newline>'' else markdown1)
      in forEach_message p n (index + 1) ms markdown2)"

definition generateConversationMarkdown :: "platform \<Rightarrow> conversation \<Rightarrow> jsstring" where
  "generateConversationMarkdown p c =
     (let markdown = js ''# '' @ title c @ js ''\<newline>\<newline>'';
          markdown = markdown @ js ''**Created:** '' @ toLocaleString p (createdAt c) @ js ''\<newline>'';
          markdown = markdown @ js ''**Updated:** '' @ toLocaleString p (updatedAt c) @ js ''\<newline>'';
          markdown = markdown @ js ''**Messages:** '' @ show_nat (length (messages c))
                       @ js ''\<newline>\<newline>---\<newline>\<newline>''
      in forEach_message p (length (messages c)) 0 (messages c) markdown)"

text \<open>
  The document as the specification words it: a heading line and a blank line, three
  metadata lines and a blank line, a rule and a blank line, then one heading line per
  message, consecutive ones separated by one empty line.
\<close>

definition heading_line :: "platform \<Rightarrow> message \<Rightarrow> jsstring" where
  "heading_line p m = js ''## '' @ toUpperCase p (role m) @ js '': '' @ content m @ js ''\<newline>''"

fun separated_by_blank :: "jsstring list \<Rightarrow> jsstring" where
  "separated_by_blank [] = []"
| "separated_by_blank [b] = b"
| "separated_by_blank (b # b' # bs) = b @ js ''\<newline>'' @ separated_by_blank (b' # bs)"

definition markdown_spec :: "platform \<Rightarrow> conversation \<Rightarrow> jsstring" where
  "markdown_spec p c =
     js ''# '' @ title c @ js ''\<newline>''
     @ js ''\<newline>''
     @ js ''**Created:** '' @ toLocaleString p (createdAt c) @ js ''\<newline>''
     @ js ''**Updated:** '' @ toLocaleString p (updatedAt c) @ js ''\<newline>''
     @ js ''**Messages:** '' @ show_nat (length (messages c)) @ js ''\<newline>''
     @ js ''\<newline>''
     @ js ''---'' @ js ''\<newline>''
     @ js ''\<newline>''
     @ separated_by_blank (map (heading_line p) (messages c))"

subsection \<open>The hook's state and its effects\<close>

text \<open>
  A JavaScript \<open>Set\<close> iterates in insertion order and holds no element twice: a list
  without duplicates. \<open>new Set(prev)\<close> copies, which a value needs no model of.
\<close>

type_synonym 'a js_set = "'a list"

definition Set_has :: "'a js_set \<Rightarrow> 'a \<Rightarrow> bool" where
  "Set_has S x = (x \<in> set S)"

definition Set_add :: "'a js_set \<Rightarrow> 'a \<Rightarrow> 'a js_set" where
  "Set_add S x = (if Set_has S x then S else S @ [x])"

definition Set_delete :: "'a js_set \<Rightarrow> 'a \<Rightarrow> 'a js_set" where
  "Set_delete S x = filter (\<lambda>y. y \<noteq> x) S"

definition Set_from :: "'a list \<Rightarrow> 'a js_set" where
  "Set_from xs = foldl Set_add [] xs"

record history_state =
  isLoading :: bool
  conversations :: "conversation list"
  search :: jsstring
  selectedConversationId :: "jsstring option"
  viewingConversation :: "conversation option"
  downloadedConversations :: "jsstring js_set"
  deleteConfirm :: "jsstring option"
  isDownloaded :: bool
  isAttached :: bool
  isSelectionMode :: bool
  selectedIds :: "jsstring js_set"
  batchDeleteConfirm :: bool

text \<open>The initial values of the \<open>useState\<close> cells.\<close>

definition initial_state :: history_state where
  "initial_state =
     \<lparr>isLoading = False, conversations = [], search = [],
      selectedConversationId = None, viewingConversation = None,
      downloadedConversations = [], deleteConfirm = None,
      isDownloaded = False, isAttached = False,
      isSelectionMode = False, selectedIds = [], batchDeleteConfirm = False\<rparr>"

text \<open>
  A store call with its outcome (\<open>True\<close>: it resolved, \<open>False\<close>: it threw), a callback
  armed with \<open>setTimeout(..., DOWNLOAD_SUCCESS_DISPLAY_MS)\<close>, a \<open>console.error\<close> line.
\<close>

datatype store_call = GetAllCall bool | DeleteCall jsstring bool

datatype timer = ClearDownloaded jsstring | ClearAttached | ClearIsDownloaded

datatype log_line = FailedToLoad | FailedToDownload | FailedToDelete | FailedToDeleteMany

record effects =
  store_log :: "store_call list"
  events :: "jsstring list"
  timers :: "timer list"
  saved_files :: "(jsstring \<times> jsstring) list"
  overlay_selected :: "(jsstring \<times> nat) option"
  console :: "log_line list"

definition no_effects :: effects where
  "no_effects =
     \<lparr>store_log = [], events = [], timers = [], saved_files = [],
      overlay_selected = None, console = []\<rparr>"

type_synonym hook = "history_state \<times> effects"

subsection \<open>Loading\<close>

text \<open>
  \<open>refreshConversations\<close> up to its \<open>await\<close>, and from the moment the store answers:
  \<open>Inr\<close> the list it resolved to, \<open>Inl\<close> when it threw.
\<close>

definition refresh_begin :: "hook \<Rightarrow> hook" where
  "refresh_begin = (\<lambda>(s, w). (s\<lparr>isLoading := True\<rparr>, w))"

definition refresh_end :: "error + conversation list \<Rightarrow> hook \<Rightarrow> hook" where
  "refresh_end answer = (\<lambda>(s, w).
     (case answer of
        Inr loadedConversations \<Rightarrow>
          (s\<lparr>conversations := loadedConversations, isLoading := False\<rparr>,
           w\<lparr>store_log := store_log w @ [GetAllCall True]\<rparr>)
      | Inl e \<Rightarrow>
          (s\<lparr>conversations := [], isLoading := False\<rparr>,
           w\<lparr>store_log := store_log w @ [GetAllCall False],
              console := console w @ [FailedToLoad]\<rparr>)))"

definition refreshConversations :: "error + conversation list \<Rightarrow> hook \<Rightarrow> hook" where
  "refreshConversations getAllConversations h = refresh_end getAllConversations (refresh_begin h)"

subsection \<open>Viewing, downloading, attaching\<close>

definition handleViewConversation :: "conversation \<Rightarrow> hook \<Rightarrow> hook" where
  "handleViewConversation c = (\<lambda>(s, w). (s\<lparr>viewingConversation := Some c\<rparr>, w))"

text \<open>
  The body of the \<open>try\<close> in \<open>handleDownloadConversation\<close>: the file it saved, or the
  exception.
\<close>

definition try_export :: "platform \<Rightarrow> conversation \<Rightarrow> error + (jsstring \<times> jsstring)" where
  "try_export p c =
     (if markdown_throws p c then Inl ExportError
      else
        let markdown = generateConversationMarkdown p c;
            download = generateFilename (title c)
        in if saveTextFile p download markdown then Inr (download, markdown)
           else Inl ExportError)"

definition handleDownloadConversation :: "platform \<Rightarrow> conversation \<Rightarrow> hook \<Rightarrow> hook" where
  "handleDownloadConversation p c = (\<lambda>(s, w).
     let s1 = s\<lparr>downloadedConversations := Set_add (downloadedConversations s) (conv_id c)\<rparr>
     in case try_export p c of
          Inl e \<Rightarrow>
            (s1\<lparr>downloadedConversations := Set_delete (downloadedConversations s1) (conv_id c)\<rparr>,
             w\<lparr>console := console w @ [FailedToDownload]\<rparr>)
        | Inr file \<Rightarrow>
            (s1, w\<lparr>saved_files := saved_files w @ [file],
                   timers := timers w @ [ClearDownloaded (conv_id c)]\<rparr>))"

definition handleDownload :: "platform \<Rightarrow> conversation option \<Rightarrow> hook \<Rightarrow> hook" where
  "handleDownload p conversation h =
     (case conversation of
        None \<Rightarrow> h
      | Some c \<Rightarrow>
          (case handleDownloadConversation p c h of
             (s, w) \<Rightarrow> (s\<lparr>isDownloaded := True\<rparr>, w\<lparr>timers := timers w @ [ClearIsDownloaded]\<rparr>)))"

text \<open>
  \<open>handleAttachToOverlay\<close> leaves the identifier and \<open>Date.now()\<close> under the key
  \<open>pluely-conversation-selected\<close> of the local storage.
\<close>

definition handleAttachToOverlay :: "jsstring \<Rightarrow> nat \<Rightarrow> hook \<Rightarrow> hook" where
  "handleAttachToOverlay conversationId now = (\<lambda>(s, w).
     (s\<lparr>isAttached := True\<rparr>,
      w\<lparr>overlay_selected := Some (conversationId, now),
         timers := timers w @ [ClearAttached]\<rparr>))"

text \<open>The callback of a timer, when it fires.\<close>

fun run_timer :: "timer \<Rightarrow> history_state \<Rightarrow> history_state" where
  "run_timer (ClearDownloaded i) s =
     s\<lparr>downloadedConversations := Set_delete (downloadedConversations s) i\<rparr>"
| "run_timer ClearAttached s = s\<lparr>isAttached := False\<rparr>"
| "run_timer ClearIsDownloaded s = s\<lparr>isDownloaded := False\<rparr>"

definition timer_fires :: "hook \<Rightarrow> hook" where
  "timer_fires = (\<lambda>(s, w).
     (case timers w of
        [] \<Rightarrow> (s, w)
      | t # ts \<Rightarrow> (run_timer t s, w\<lparr>timers := ts\<rparr>)))"

subsection \<open>Deleting one conversation\<close>

definition handleDeleteConfirm :: "jsstring \<Rightarrow> hook \<Rightarrow> hook" where
  "handleDeleteConfirm conversationId = (\<lambda>(s, w). (s\<lparr>deleteConfirm := Some conversationId\<rparr>, w))"

text \<open>
  \<open>if (!deleteConfirm) return;\<close> leaves on \<open>null\<close> and on the empty string alike.
  \<open>deleteConversation\<close> tells whether the store call for an identifier resolves.
\<close>

definition confirmDelete :: "(jsstring \<Rightarrow> bool) \<Rightarrow> hook \<Rightarrow> hook" where
  "confirmDelete deleteConversation = (\<lambda>(s, w).
     (case deleteConfirm s of
        None \<Rightarrow> (s, w)
      | Some d \<Rightarrow>
          if d = [] then (s, w)
          else
            let s1 = s\<lparr>selectedConversationId := None, viewingConversation := None\<rparr>;
                resolved = deleteConversation d;
                w1 = w\<lparr>store_log := store_log w @ [DeleteCall d resolved]\<rparr>
            in if resolved then
                 (s1\<lparr>conversations := filter (\<lambda>c. conv_id c \<noteq> d) (conversations s1),
                     deleteConfirm := None\<rparr>,
                  w1\<lparr>events := events w1 @ [d]\<rparr>)
               else
                 (s1\<lparr>deleteConfirm := None\<rparr>,
                  w1\<lparr>console := console w1 @ [FailedToDelete]\<rparr>)))"

definition cancelDelete :: "hook \<Rightarrow> hook" where
  "cancelDelete = (\<lambda>(s, w). (s\<lparr>deleteConfirm := None\<rparr>, w))"

subsection \<open>Batch selection\<close>

definition toggleSelectionMode :: "hook \<Rightarrow> hook" where
  "toggleSelectionMode = (\<lambda>(s, w).
     (s\<lparr>isSelectionMode := \<not> isSelectionMode s, selectedIds := []\<rparr>, w))"

definition toggleSelectItem :: "jsstring \<Rightarrow> hook \<Rightarrow> hook" where
  "toggleSelectItem i = (\<lambda>(s, w).
     (s\<lparr>selectedIds :=
          (if Set_has (selectedIds s) i then Set_delete (selectedIds s) i
           else Set_add (selectedIds s) i)\<rparr>, w))"

definition selectAll :: "hook \<Rightarrow> hook" where
  "selectAll = (\<lambda>(s, w). (s\<lparr>selectedIds := Set_from (map conv_id (conversations s))\<rparr>, w))"

definition deselectAll :: "hook \<Rightarrow> hook" where
  "deselectAll = (\<lambda>(s, w). (s\<lparr>selectedIds := []\<rparr>, w))"

definition handleBatchDeleteConfirm :: "hook \<Rightarrow> hook" where
  "handleBatchDeleteConfirm = (\<lambda>(s, w).
     if length (selectedIds s) > 0 then (s\<lparr>batchDeleteConfirm := True\<rparr>, w) else (s, w))"

text \<open>
  The loop \<open>for (const id of selectedIds) await deleteConversation(id)\<close>: the calls it
  made, and whether it ran to its end (\<open>False\<close>: a call threw, and the loop with it).
\<close>

fun delete_each :: "(jsstring \<Rightarrow> bool) \<Rightarrow> jsstring list \<Rightarrow> store_call list \<times> bool" where
  "delete_each deleteConversation [] = ([], True)"
| "delete_each deleteConversation (i # ids) =
     (if deleteConversation i then
        (case delete_each deleteConversation ids of
           (calls, finished) \<Rightarrow> (DeleteCall i True # calls, finished))
      else ([DeleteCall i False], False))"

definition confirmBatchDelete :: "(jsstring \<Rightarrow> bool) \<Rightarrow> hook \<Rightarrow> hook" where
  "confirmBatchDelete deleteConversation = (\<lambda>(s, w).
     if length (selectedIds s) = 0 then (s, w)
     else
       (case delete_each deleteConversation (selectedIds s) of
          (calls, finished) \<Rightarrow>
            let w1 = w\<lparr>store_log := store_log w @ calls\<rparr>
            in if finished then
                 (s\<lparr>conversations :=
                      filter (\<lambda>c. \<not> Set_has (selectedIds s) (conv_id c)) (conversations s),
                    selectedIds := [], isSelectionMode := False,
                    batchDeleteConfirm := False\<rparr>,
                  w1\<lparr>events := events w1 @ selectedIds s\<rparr>)
               else
                 (s\<lparr>batchDeleteConfirm := False\<rparr>,
                  w1\<lparr>console := console w1 @ [FailedToDeleteMany]\<rparr>)))"

definition cancelBatchDelete :: "hook \<Rightarrow> hook" where
  "cancelBatchDelete = (\<lambda>(s, w). (s\<lparr>batchDeleteConfirm := False\<rparr>, w))"

definition setSearch :: "jsstring \<Rightarrow> hook \<Rightarrow> hook" where
  "setSearch q = (\<lambda>(s, w). (s\<lparr>search := q\<rparr>, w))"

subsection \<open>Reachable states\<close>

text \<open>
  Everything that can happen to a mounted hook: one of the functions it returns is
  called, the store answers a refresh, or the oldest timer fires.
\<close>

datatype action =
    RefreshBegin
  | RefreshEnd "error + conversation list"
  | HandleViewConversation conversation
  | HandleDownloadConversation platform conversation
  | HandleDownload platform "conversation option"
  | HandleAttachToOverlay jsstring nat
  | TimerFires
  | HandleDeleteConfirm jsstring
  | ConfirmDelete "jsstring \<Rightarrow> bool"
  | CancelDelete
  | SetSearch jsstring
  | ToggleSelectionMode
  | ToggleSelectItem jsstring
  | SelectAll
  | DeselectAll
  | HandleBatchDeleteConfirm
  | ConfirmBatchDelete "jsstring \<Rightarrow> bool"
  | CancelBatchDelete

fun perform :: "action \<Rightarrow> hook \<Rightarrow> hook" where
  "perform RefreshBegin h = refresh_begin h"
| "perform (RefreshEnd answer) h = refresh_end answer h"
| "perform (HandleViewConversation c) h = handleViewConversation c h"
| "perform (HandleDownloadConversation p c) h = handleDownloadConversation p c h"
| "perform (HandleDownload p c) h = handleDownload p c h"
| "perform (HandleAttachToOverlay i now) h = handleAttachToOverlay i now h"
| "perform TimerFires h = timer_fires h"
| "perform (HandleDeleteConfirm i) h = handleDeleteConfirm i h"
| "perform (ConfirmDelete d) h = confirmDelete d h"
| "perform CancelDelete h = cancelDelete h"
| "perform (SetSearch q) h = setSearch q h"
| "perform ToggleSelectionMode h = toggleSelectionMode h"
| "perform (ToggleSelectItem i) h = toggleSelectItem i h"
| "perform SelectAll h = selectAll h"
| "perform DeselectAll h = deselectAll h"
| "perform HandleBatchDeleteConfirm h = handleBatchDeleteConfirm h"
| "perform (ConfirmBatchDelete d) h = confirmBatchDelete d h"
| "perform CancelBatchDelete h = cancelBatchDelete h"

inductive reachable :: "hook \<Rightarrow> bool" where
  mounted: "reachable (initial_state, no_effects)"
| acted: "reachable h \<Longrightarrow> reachable (perform a h)"

text \<open>
  The page that uses the hook renders the checkbox of a card and the
  select-all button only while \<open>isSelectionMode\<close> holds, and a click on a card
  calls \<open>toggleSelectItem\<close> only then. \<open>offered a s\<close>: the page lets the user
  trigger \<open>a\<close> in state \<open>s\<close>.
\<close>

fun offered :: "action \<Rightarrow> history_state \<Rightarrow> bool" where
  "offered (ToggleSelectItem i) s = isSelectionMode s"
| "offered SelectAll s = isSelectionMode s"
| "offered a s = True"

inductive page_reachable :: "hook \<Rightarrow> bool" where
  page_mounted: "page_reachable (initial_state, no_effects)"
| page_acted: "page_reachable h \<Longrightarrow> offered a (fst h) \<Longrightarrow> page_reachable (perform a h)"

subsection \<open>Sample inputs\<close>

definition upper_unit :: "code_unit \<Rightarrow> code_unit" where
  "upper_unit c = (if 0x61 \<le> c \<and> c \<le> 0x7A then c - 0x20 else c)"

text \<open>
  A platform on which nothing throws, which upper-cases ASCII and whose locale prints
  a time stamp as its digits.
\<close>

definition ascii_platform :: platform where
  "ascii_platform =
     \<lparr>toLocaleString = show_nat, toUpperCase = map upper_unit,
      markdown_throws = (\<lambda>c. False), saveTextFile = (\<lambda>name text. True)\<rparr>"

definition test_chat :: conversation where
  "test_chat =
     \<lparr>conv_id = js ''t1'', title = js ''Test/Chat?'', createdAt = 1, updatedAt = 2,
      messages = [\<lparr>role = js ''user'', content = js ''Hi''\<rparr>,
                  \<lparr>role = js ''assistant'', content = js ''Hello''\<rparr>]\<rparr>"

text \<open>
  Three stored conversations; a state with two of them selected and the batch dialog
  open; a state with the first one pending deletion and on view; the effects of the
  one refresh that loaded them; stores on which every deletion resolves, only that
  of \<open>a\<close> resolves, only that of \<open>a\<close> throws; a platform that refuses the save.
\<close>

definition conv_a :: conversation where
  "conv_a = \<lparr>conv_id = js ''a'', title = js ''First'', createdAt = 1, updatedAt = 2, messages = []\<rparr>"

definition conv_b :: conversation where
  "conv_b = \<lparr>conv_id = js ''b'', title = js ''Second'', createdAt = 3, updatedAt = 4, messages = []\<rparr>"

definition conv_c :: conversation where
  "conv_c = \<lparr>conv_id = js ''c'', title = js ''Third'', createdAt = 5, updatedAt = 6, messages = []\<rparr>"

definition three_loaded :: history_state where
  "three_loaded = initial_state\<lparr>conversations := [conv_a, conv_b, conv_c]\<rparr>"

definition two_selected :: history_state where
  "two_selected =
     three_loaded\<lparr>isSelectionMode := True, selectedIds := [js ''a'', js ''b''],
                   batchDeleteConfirm := True\<rparr>"

definition pending_a :: history_state where
  "pending_a =
     three_loaded\<lparr>deleteConfirm := Some (js ''a''), viewingConversation := Some conv_a\<rparr>"

definition loaded_effects :: effects where
  "loaded_effects = no_effects\<lparr>store_log := [GetAllCall True]\<rparr>"

definition all_resolve :: "jsstring \<Rightarrow> bool" where
  "all_resolve i = True"

definition only_a_resolves :: "jsstring \<Rightarrow> bool" where
  "only_a_resolves i = (i = js ''a'')"

definition a_throws :: "jsstring \<Rightarrow> bool" where
  "a_throws i = (i \<noteq> js ''a'')"

definition save_denied :: platform where
  "save_denied = ascii_platform\<lparr>saveTextFile := (\<lambda>name text. False)\<rparr>"

section \<open>Properties\<close>

lemmas samples =
  conv_a_def conv_b_def conv_c_def three_loaded_def two_selected_def pending_a_def
  all_resolve_def only_a_resolves_def a_throws_def initial_state_def no_effects_def
  loaded_effects_def

lemma reachable_after: "reachable h \<Longrightarrow> reachable (foldl (\<lambda>h a. perform a h) h as)"
  by (induction as arbitrary: h) (simp_all add: reachable.acted)

lemma reachable_pending_a: "reachable (pending_a, loaded_effects)"
proof -
  have "reachable (foldl (\<lambda>h a. perform a h) (initial_state, no_effects)
          [RefreshBegin, RefreshEnd (Inr [conv_a, conv_b, conv_c]),
           HandleViewConversation conv_a, HandleDeleteConfirm (js ''a'')])"
    by (rule reachable_after) (rule reachable.mounted)
  then show ?thesis
    by (simp add: refresh_begin_def refresh_end_def handleViewConversation_def
        handleDeleteConfirm_def pending_a_def three_loaded_def initial_state_def
        no_effects_def loaded_effects_def)
qed

lemma reachable_two_selected: "reachable (two_selected, loaded_effects)"
proof -
  have "reachable (foldl (\<lambda>h a. perform a h) (initial_state, no_effects)
          [RefreshBegin, RefreshEnd (Inr [conv_a, conv_b, conv_c]), ToggleSelectionMode,
           ToggleSelectItem (js ''a''), ToggleSelectItem (js ''b''), HandleBatchDeleteConfirm])"
    by (rule reachable_after) (rule reachable.mounted)
  then show ?thesis
    by (simp add: refresh_begin_def refresh_end_def toggleSelectionMode_def
        toggleSelectItem_def handleBatchDeleteConfirm_def Set_has_def Set_add_def
        two_selected_def three_loaded_def initial_state_def no_effects_def loaded_effects_def)
qed

subsection \<open>Markdown export\<close>

lemma separated_by_blank_Cons:
  "separated_by_blank (b # bs) =
     (if bs = [] then b else b @ js ''\<newline>'' @ separated_by_blank bs)"
  by (cases bs) simp_all

lemma forEach_message_Cons:
  "forEach_message p n index (m # ms) markdown =
     forEach_message p n (index + 1) ms
       (if int index < int n - 1 then markdown @ heading_line p m @ js ''\<newline>''
        else markdown @ heading_line p m)"
  by (simp add: heading_line_def Let_def)

lemma forEach_message_eq:
  "n = index + length ms \<Longrightarrow>
   forEach_message p n index ms markdown = markdown @ separated_by_blank (map (heading_line p) ms)"
proof (induction ms arbitrary: index markdown)
  case Nil
  then show ?case by simp
next
  case (Cons m ms)
  from Cons.prems have n: "n = (index + 1) + length ms" by simp
  from Cons.prems have lt: "int index < int n - 1 \<longleftrightarrow> ms \<noteq> []" by auto
  show ?case
    unfolding forEach_message_Cons Cons.IH [OF n] lt list.map separated_by_blank_Cons
    by simp
qed

text \<open>
  Claim C5. For every conversation, the markdown document produced for download is
  the level-1 heading with the title, the metadata lines for the created time, the
  updated time and the message count, a horizontal rule, and then for each message in
  order a level-2 heading of the upper-cased role, \<open>: \<close> and the content, with one
  empty line between consecutive messages and none after the last.
\<close>

theorem markdown_document: "generateConversationMarkdown p c = markdown_spec p c"
  by (simp add: generateConversationMarkdown_def markdown_spec_def forEach_message_eq Let_def)

theorem markdown_document_witness:
  "generateConversationMarkdown ascii_platform test_chat =
     js ''# Test/Chat?\<newline>\<newline>**Created:** 1\<newline>**Updated:** 2\<newline>**Messages:** 2\<newline>\<newline>---\<newline>\<newline>## USER: Hi\<newline>\<newline>## ASSISTANT: Hello\<newline>''"
  using markdown_document [of ascii_platform test_chat]
  by (simp add: markdown_spec_def heading_line_def ascii_platform_def test_chat_def
      upper_unit_def show_nat.simps)

subsection \<open>File name\<close>

lemma replace_non_az09_map:
  "replace_non_az09 t = map (\<lambda>c. if in_az09_i c then c else 0x5F) t"
  by (induction t) simp_all

lemma substring_prefix: "substring s 0 n = take n s"
  by (simp add: substring_def Let_def min_def)

text \<open>
  Claim C6. For every title, the generated file name is the title with every
  character outside \<open>[a-zA-Z0-9]\<close> replaced by \<open>_\<close>, lower-cased, cut to at most 16
  characters, followed by \<open>.md\<close>; the title \<open>Hello, World! 2024\<close> gives
  \<open>hello__world__20.md\<close>.
\<close>

theorem filename_sanitized:
  "generateFilename t = filename_spec t \<and>
   length (generateFilename t) = min 16 (length t) + 3 \<and>
   generateFilename (js ''Hello, World! 2024'') = js ''hello__world__20.md''"
proof (intro conjI)
  show g: "generateFilename t = filename_spec t" for t
    by (simp add: generateFilename_def filename_spec_def toLowerCase_def
        replace_non_az09_map substring_prefix Let_def)
  show "length (generateFilename t) = min 16 (length t) + 3"
    unfolding g by (simp add: filename_spec_def min.commute)
  show "generateFilename (js ''Hello, World! 2024'') = js ''hello__world__20.md''"
    unfolding g by (simp add: filename_spec_def lower_unit_def in_az09_i_def)
qed

theorem filename_sanitized_witness:
  "generateFilename (js ''Test/Chat?'') = js ''test_chat_.md''"
  using filename_sanitized [of "js ''Test/Chat?''"]
  by (simp add: filename_spec_def lower_unit_def in_az09_i_def)

subsection \<open>Loading\<close>

text \<open>
  Claim C7. The refresh sets the loading flag for as long as the store call is
  pending and clears it when the call ends; a list the store resolved to replaces the
  cached list, and a failure replaces the cached list by the empty one.
\<close>

theorem refresh_loading:
  "isLoading (fst (refresh_begin (s, w))) \<and>
   conversations (fst (refresh_begin (s, w))) = conversations s \<and>
   \<not> isLoading (fst (refresh_end answer h)) \<and>
   conversations (fst (refresh_end (Inr loaded) h)) = loaded \<and>
   conversations (fst (refresh_end (Inl e) h)) = [] \<and>
   \<not> isLoading (fst (refreshConversations answer h)) \<and>
   conversations (fst (refreshConversations (Inr loaded) h)) = loaded \<and>
   conversations (fst (refreshConversations (Inl e) h)) = []"
  by (cases h) (simp add: refresh_begin_def refresh_end_def refreshConversations_def split: sum.split)

theorem refresh_loading_witness:
  "isLoading (fst (refresh_begin (three_loaded, no_effects))) \<and>
   conversations (fst (refreshConversations (Inr [conv_b]) (three_loaded, no_effects))) = [conv_b] \<and>
   conversations (fst (refreshConversations (Inl StoreError) (three_loaded, no_effects))) = []"
  using refresh_loading [of three_loaded no_effects "Inr [conv_b]" "(three_loaded, no_effects)" "[conv_b]" StoreError]
  by simp

subsection \<open>Download\<close>

lemma Set_delete_absent: "\<not> Set_has (Set_delete S x) x"
  by (simp add: Set_has_def Set_delete_def)

text \<open>
  Claim C8. If building the document or saving the file throws, then when
  \<open>handleDownloadConversation\<close> returns the conversation's identifier is not in the set
  of recently downloaded ones, and the call has armed no timer.
\<close>

theorem download_failure:
  assumes "markdown_throws p c \<or>
           \<not> saveTextFile p (generateFilename (title c)) (generateConversationMarkdown p c)"
    and "handleDownloadConversation p c (s, w) = (s', w')"
  shows "\<not> Set_has (downloadedConversations s') (conv_id c) \<and> timers w' = timers w"
proof -
  from assms(1) have "try_export p c = Inl ExportError"
    by (auto simp: try_export_def Let_def)
  with assms(2) show ?thesis
    by (auto simp: handleDownloadConversation_def Let_def Set_delete_absent)
qed

theorem download_failure_witness:
  "(markdown_throws save_denied test_chat \<or>
    \<not> saveTextFile save_denied (generateFilename (title test_chat))
         (generateConversationMarkdown save_denied test_chat)) \<and>
   \<not> Set_has (downloadedConversations
        (fst (handleDownloadConversation save_denied test_chat (three_loaded, no_effects))))
        (conv_id test_chat) \<and>
   timers (snd (handleDownloadConversation save_denied test_chat (three_loaded, no_effects)))
     = timers no_effects"
proof -
  have h: "markdown_throws save_denied test_chat \<or>
    \<not> saveTextFile save_denied (generateFilename (title test_chat))
         (generateConversationMarkdown save_denied test_chat)"
    by (simp add: save_denied_def ascii_platform_def)
  show ?thesis
    using h download_failure [OF h, of three_loaded no_effects
        "fst (handleDownloadConversation save_denied test_chat (three_loaded, no_effects))"
        "snd (handleDownloadConversation save_denied test_chat (three_loaded, no_effects))"]
    by simp
qed

subsection \<open>Deleting one conversation\<close>

text \<open>
  \<open>confirmDelete\<close> takes an identifier for pending when the guard \<open>!deleteConfirm\<close>
  lets it through: \<open>null\<close> and the empty string are both nothing pending, and the
  call returns at once.
\<close>

lemma confirmDelete_nothing_pending:
  "deleteConfirm s = None \<or> deleteConfirm s = Some [] \<Longrightarrow>
   confirmDelete deleteConversation (s, w) = (s, w)"
  by (auto simp: confirmDelete_def)

text \<open>
  Claim C4. Let \<open>c\<close> be a cached conversation whose identifier is pending
  confirmation. \<open>confirmDelete\<close> makes one store call, for that identifier, and clears
  the pending identifier whether the call resolves or throws; if it resolves, \<open>c\<close>
  (and nothing else) is gone from the cached list and exactly one broadcast,
  carrying the identifier of \<open>c\<close>, is emitted.
\<close>

theorem confirmDelete_resolved:
  assumes "c \<in> set (conversations s)" and "deleteConfirm s = Some (conv_id c)"
    and "conv_id c \<noteq> []"
    and "confirmDelete deleteConversation (s, w) = (s', w')"
  shows "store_log w' = store_log w @ [DeleteCall (conv_id c) (deleteConversation (conv_id c))] \<and>
         deleteConfirm s' = None \<and>
         (deleteConversation (conv_id c) \<longrightarrow>
            c \<notin> set (conversations s') \<and>
            conversations s' = filter (\<lambda>x. conv_id x \<noteq> conv_id c) (conversations s) \<and>
            events w' = events w @ [conv_id c])"
  using assms
  by (auto simp: confirmDelete_def Let_def split: if_splits)

theorem confirmDelete_resolved_witness:
  "reachable (pending_a, loaded_effects) \<and>
   conv_a \<in> set (conversations pending_a) \<and>
   deleteConfirm pending_a = Some (conv_id conv_a) \<and>
   conv_id conv_a \<noteq> [] \<and>
   all_resolve (conv_id conv_a) \<and>
   store_log (snd (confirmDelete all_resolve (pending_a, loaded_effects)))
     = [GetAllCall True, DeleteCall (js ''a'') True] \<and>
   deleteConfirm (fst (confirmDelete all_resolve (pending_a, loaded_effects))) = None \<and>
   conversations (fst (confirmDelete all_resolve (pending_a, loaded_effects))) = [conv_b, conv_c] \<and>
   events (snd (confirmDelete all_resolve (pending_a, loaded_effects))) = [js ''a'']"
proof -
  have h1: "conv_a \<in> set (conversations pending_a)"
    and h2: "deleteConfirm pending_a = Some (conv_id conv_a)"
    and h3: "conv_id conv_a \<noteq> []"
    and h4: "all_resolve (conv_id conv_a)"
    by (simp_all add: samples)
  have e: "events loaded_effects = []" "store_log loaded_effects = [GetAllCall True]"
    "conversations pending_a = [conv_a, conv_b, conv_c]"
    "conv_id conv_a = js ''a''" "conv_id conv_b = js ''b''" "conv_id conv_c = js ''c''"
    by (simp_all add: samples)
  show ?thesis
    using reachable_pending_a h1 h2 h3 h4
      confirmDelete_resolved [OF h1 h2 h3, of all_resolve loaded_effects
        "fst (confirmDelete all_resolve (pending_a, loaded_effects))"
        "snd (confirmDelete all_resolve (pending_a, loaded_effects))"]
    by (simp add: e)
qed

text \<open>
  Claim C10. If the store call of \<open>confirmDelete\<close> throws, the cached list is
  left as it was and nothing is broadcast, while the conversation on view and the
  selected identifier are cleared and the pending identifier is reset; nothing else
  of the state changes.
\<close>

theorem confirmDelete_failed:
  assumes "deleteConfirm s = Some d" and "d \<noteq> []"
    and "\<not> deleteConversation d"
    and "confirmDelete deleteConversation (s, w) = (s', w')"
  shows "store_log w' = store_log w @ [DeleteCall d False] \<and>
         conversations s' = conversations s \<and> events w' = events w \<and>
         viewingConversation s' = None \<and> selectedConversationId s' = None \<and>
         deleteConfirm s' = None \<and>
         s' = s\<lparr>selectedConversationId := None, viewingConversation := None,
                 deleteConfirm := None\<rparr>"
  using assms
  by (auto simp: confirmDelete_def Let_def split: if_splits)

theorem confirmDelete_failed_witness:
  "reachable (pending_a, loaded_effects) \<and>
   deleteConfirm pending_a = Some (js ''a'') \<and> js ''a'' \<noteq> [] \<and> \<not> a_throws (js ''a'') \<and>
   viewingConversation pending_a = Some conv_a \<and>
   store_log (snd (confirmDelete a_throws (pending_a, loaded_effects)))
     = [GetAllCall True, DeleteCall (js ''a'') False] \<and>
   conversations (fst (confirmDelete a_throws (pending_a, loaded_effects)))
     = [conv_a, conv_b, conv_c] \<and>
   events (snd (confirmDelete a_throws (pending_a, loaded_effects))) = [] \<and>
   viewingConversation (fst (confirmDelete a_throws (pending_a, loaded_effects))) = None \<and>
   selectedConversationId (fst (confirmDelete a_throws (pending_a, loaded_effects))) = None \<and>
   deleteConfirm (fst (confirmDelete a_throws (pending_a, loaded_effects))) = None"
proof -
  have h1: "deleteConfirm pending_a = Some (js ''a'')" and h2: "js ''a'' \<noteq> []"
    and h3: "\<not> a_throws (js ''a'')"
    by (simp_all add: samples)
  have e: "events loaded_effects = []" "store_log loaded_effects = [GetAllCall True]"
    "conversations pending_a = [conv_a, conv_b, conv_c]"
    "viewingConversation pending_a = Some conv_a"
    by (simp_all add: samples)
  show ?thesis
    using reachable_pending_a h1 h2 h3
      confirmDelete_failed [where s = pending_a and d = "js ''a''"
        and deleteConversation = a_throws and w = loaded_effects
        and s' = "fst (confirmDelete a_throws (pending_a, loaded_effects))"
        and w' = "snd (confirmDelete a_throws (pending_a, loaded_effects))"]
    by (simp add: e)
qed

subsection \<open>Batch deletion\<close>

lemma delete_each_calls:
  "fst (delete_each d ids) =
     map (\<lambda>i. DeleteCall i True) (takeWhile d ids)
     @ (case dropWhile d ids of [] \<Rightarrow> [] | i # rest \<Rightarrow> [DeleteCall i False])"
  by (induction ids) (auto split: prod.split)

lemma delete_each_finished: "snd (delete_each d ids) = (\<forall>i\<in>set ids. d i)"
  by (induction ids) (auto split: prod.split)

lemma distinct_count_list: "distinct xs \<Longrightarrow> x \<in> set xs \<Longrightarrow> count_list xs x = 1"
  by (induction xs) (auto simp: count_list_0_iff)

lemma distinct_Set_add: "distinct S \<Longrightarrow> distinct (Set_add S x)"
  by (simp add: Set_add_def Set_has_def)

lemma distinct_Set_delete: "distinct S \<Longrightarrow> distinct (Set_delete S x)"
  by (simp add: Set_delete_def)

lemma distinct_foldl_Set_add: "distinct S \<Longrightarrow> distinct (foldl Set_add S xs)"
  by (induction xs arbitrary: S) (simp_all add: distinct_Set_add)

lemma distinct_Set_from: "distinct (Set_from xs)"
  by (simp add: Set_from_def distinct_foldl_Set_add)

lemmas action_defs =
  refresh_begin_def refresh_end_def handleViewConversation_def handleDownloadConversation_def
  handleDownload_def handleAttachToOverlay_def timer_fires_def handleDeleteConfirm_def
  confirmDelete_def cancelDelete_def setSearch_def toggleSelectionMode_def toggleSelectItem_def
  selectAll_def deselectAll_def handleBatchDeleteConfirm_def confirmBatchDelete_def
  cancelBatchDelete_def

lemma run_timer_selection:
  "selectedIds (run_timer t s) = selectedIds s" "isSelectionMode (run_timer t s) = isSelectionMode s"
  by (cases t; simp)+

lemma perform_distinct:
  "distinct (selectedIds (fst h)) \<Longrightarrow> distinct (selectedIds (fst (perform a h)))"
  by (cases h; cases a)
    (auto simp: action_defs Let_def run_timer_selection distinct_Set_add distinct_Set_delete
      distinct_Set_from split: sum.splits option.splits list.splits prod.splits)

lemma reachable_distinct: "reachable h \<Longrightarrow> distinct (selectedIds (fst h))"
  by (induction rule: reachable.induct) (simp_all add: initial_state_def perform_distinct)

lemma perform_selection:
  assumes "offered a (fst h)" and "selectedIds (fst h) \<noteq> [] \<longrightarrow> isSelectionMode (fst h)"
  shows "selectedIds (fst (perform a h)) \<noteq> [] \<longrightarrow> isSelectionMode (fst (perform a h))"
  using assms
  by (cases h; cases a)
    (auto simp: action_defs Let_def run_timer_selection
      split: sum.splits option.splits list.splits prod.splits if_splits)

lemma page_reachable_selection:
  "page_reachable h \<Longrightarrow> selectedIds (fst h) \<noteq> [] \<longrightarrow> isSelectionMode (fst h)"
proof (induction rule: page_reachable.induct)
  case page_mounted
  show ?case by (simp add: initial_state_def)
next
  case (page_acted h a)
  then show ?case by (intro perform_selection)
qed

text \<open>
  Claim C9. With an empty selection \<open>confirmBatchDelete\<close> does nothing: no store
  call, no broadcast, and the state, the dialog flag included, is as before.
\<close>

theorem confirmBatchDelete_empty:
  "selectedIds s = [] \<Longrightarrow> confirmBatchDelete deleteConversation (s, w) = (s, w)"
  by (simp add: confirmBatchDelete_def)

theorem confirmBatchDelete_empty_witness:
  "selectedIds three_loaded = [] \<and>
   confirmBatchDelete a_throws (three_loaded\<lparr>batchDeleteConfirm := True\<rparr>, no_effects)
     = (three_loaded\<lparr>batchDeleteConfirm := True\<rparr>, no_effects)"
  using confirmBatchDelete_empty [of "three_loaded\<lparr>batchDeleteConfirm := True\<rparr>" a_throws no_effects]
  by (simp add: samples)

text \<open>
  Claim C1 as stated fails: the deletion of \<open>a\<close> resolves and that of \<open>b\<close>
  throws, and afterwards both are still in the cached list and nothing was broadcast.
\<close>

theorem batch_partial_failure_counterexample:
  "only_a_resolves (js ''a'') \<and> \<not> only_a_resolves (js ''b'') \<and>
   store_log (snd (confirmBatchDelete only_a_resolves (two_selected, no_effects)))
     = [DeleteCall (js ''a'') True, DeleteCall (js ''b'') False] \<and>
   conversations (fst (confirmBatchDelete only_a_resolves (two_selected, no_effects)))
     = [conv_a, conv_b, conv_c] \<and>
   events (snd (confirmBatchDelete only_a_resolves (two_selected, no_effects))) = []"
  by (simp add: confirmBatchDelete_def samples)

text \<open>
  Claim C1, amended. If a store deletion throws during \<open>confirmBatchDelete\<close>,
  whether or not earlier ones resolved, the loop stops at that call: the store was
  called for the identifiers before it, in iteration order, and for it, and for no
  later one. The cached list is left as it was and no deletion is broadcast; the
  selection and the selection mode stay. Of the state only the dialog flag changes
  (the dialog closes), and of the effects only the store calls and one logged error
  are added.
\<close>

theorem batch_failure_keeps_cache:
  assumes "\<exists>i\<in>set (selectedIds s). \<not> deleteConversation i"
    and "confirmBatchDelete deleteConversation (s, w) = (s', w')"
  shows "dropWhile deleteConversation (selectedIds s) \<noteq> [] \<and>
         s' = s\<lparr>batchDeleteConfirm := False\<rparr> \<and>
         w' = w\<lparr>store_log := store_log w
                   @ map (\<lambda>i. DeleteCall i True) (takeWhile deleteConversation (selectedIds s))
                   @ (case dropWhile deleteConversation (selectedIds s) of
                        [] \<Rightarrow> [] | i # rest \<Rightarrow> [DeleteCall i False]),
                 console := console w @ [FailedToDeleteMany]\<rparr> \<and>
         conversations s' = conversations s \<and> events w' = events w \<and>
         selectedIds s' = selectedIds s \<and> isSelectionMode s' = isSelectionMode s \<and>
         \<not> batchDeleteConfirm s'"
proof -
  obtain calls finished where de: "delete_each deleteConversation (selectedIds s) = (calls, finished)"
    by (cases "delete_each deleteConversation (selectedIds s)")
  from assms(1) have ne: "selectedIds s \<noteq> []" by auto
  from assms(1) have dw: "dropWhile deleteConversation (selectedIds s) \<noteq> []"
    by (simp add: dropWhile_eq_Nil_conv)
  from de delete_each_calls [of deleteConversation "selectedIds s"]
  have calls: "calls = map (\<lambda>i. DeleteCall i True) (takeWhile deleteConversation (selectedIds s))
           @ (case dropWhile deleteConversation (selectedIds s) of
                [] \<Rightarrow> [] | i # rest \<Rightarrow> [DeleteCall i False])" by simp
  from de delete_each_finished [of deleteConversation "selectedIds s"] assms(1)
  have fin: "\<not> finished" by auto
  from assms(2) ne de fin have
    "s' = s\<lparr>batchDeleteConfirm := False\<rparr>"
    "w' = w\<lparr>store_log := store_log w @ calls, console := console w @ [FailedToDeleteMany]\<rparr>"
    by (auto simp: confirmBatchDelete_def Let_def)
  with calls dw show ?thesis by simp
qed

theorem batch_failure_keeps_cache_witness:
  "reachable (two_selected, loaded_effects) \<and>
   (\<exists>i\<in>set (selectedIds two_selected). \<not> only_a_resolves i) \<and>
   fst (confirmBatchDelete only_a_resolves (two_selected, loaded_effects))
     = two_selected\<lparr>batchDeleteConfirm := False\<rparr> \<and>
   store_log (snd (confirmBatchDelete only_a_resolves (two_selected, loaded_effects)))
     = [GetAllCall True, DeleteCall (js ''a'') True, DeleteCall (js ''b'') False] \<and>
   console (snd (confirmBatchDelete only_a_resolves (two_selected, loaded_effects)))
     = [FailedToDeleteMany] \<and>
   conversations (fst (confirmBatchDelete only_a_resolves (two_selected, loaded_effects)))
     = [conv_a, conv_b, conv_c] \<and>
   events (snd (confirmBatchDelete only_a_resolves (two_selected, loaded_effects))) = [] \<and>
   selectedIds (fst (confirmBatchDelete only_a_resolves (two_selected, loaded_effects)))
     = [js ''a'', js ''b''] \<and>
   isSelectionMode (fst (confirmBatchDelete only_a_resolves (two_selected, loaded_effects))) \<and>
   \<not> batchDeleteConfirm (fst (confirmBatchDelete only_a_resolves (two_selected, loaded_effects)))"
proof -
  have h: "\<exists>i\<in>set (selectedIds two_selected). \<not> only_a_resolves i"
    by (simp add: samples)
  have sel: "selectedIds two_selected = [js ''a'', js ''b'']"
    and cs: "conversations two_selected = [conv_a, conv_b, conv_c]"
    and md: "isSelectionMode two_selected"
    and ev: "events loaded_effects = []" "store_log loaded_effects = [GetAllCall True]"
      "console loaded_effects = []"
    and oa: "only_a_resolves (js ''a'')" "\<not> only_a_resolves (js ''b'')"
    by (simp_all add: samples)
  show ?thesis
    using reachable_two_selected h oa
      batch_failure_keeps_cache [OF h, of loaded_effects
        "fst (confirmBatchDelete only_a_resolves (two_selected, loaded_effects))"
        "snd (confirmBatchDelete only_a_resolves (two_selected, loaded_effects))"]
    by (simp add: sel cs md ev)
qed

text \<open>
  Claim C2 as stated fails: the first deletion throws, the second identifier is
  never attempted, nothing leaves the cached list, nothing is broadcast, and the
  selection and the selection mode stay.
\<close>

theorem batch_first_failure_counterexample:
  "selectedIds two_selected = [js ''a'', js ''b''] \<and>
   store_log (snd (confirmBatchDelete a_throws (two_selected, no_effects)))
     = [DeleteCall (js ''a'') False] \<and>
   conversations (fst (confirmBatchDelete a_throws (two_selected, no_effects)))
     = [conv_a, conv_b, conv_c] \<and>
   events (snd (confirmBatchDelete a_throws (two_selected, no_effects))) = [] \<and>
   selectedIds (fst (confirmBatchDelete a_throws (two_selected, no_effects)))
     = [js ''a'', js ''b''] \<and>
   isSelectionMode (fst (confirmBatchDelete a_throws (two_selected, no_effects)))"
  by (simp add: confirmBatchDelete_def samples)

text \<open>
  Claim C2, amended. For every non-empty selection, \<open>confirmBatchDelete\<close> attempts
  the store deletions in iteration order and stops at the first that throws, and it
  closes the dialog in either case. If every deletion resolves, it removes all
  selected identifiers from the cached list in one update, emits exactly one
  broadcast per selected identifier, in iteration order, clears the selection and
  leaves selection mode.
\<close>

theorem batch_delete:
  assumes "selectedIds s \<noteq> []" and "distinct (selectedIds s)"
    and "confirmBatchDelete deleteConversation (s, w) = (s', w')"
  shows "store_log w' = store_log w
           @ map (\<lambda>i. DeleteCall i True) (takeWhile deleteConversation (selectedIds s))
           @ (case dropWhile deleteConversation (selectedIds s) of
                [] \<Rightarrow> [] | i # rest \<Rightarrow> [DeleteCall i False]) \<and>
         \<not> batchDeleteConfirm s' \<and>
         ((\<forall>i\<in>set (selectedIds s). deleteConversation i) \<longrightarrow>
            conversations s' = filter (\<lambda>c. conv_id c \<notin> set (selectedIds s)) (conversations s) \<and>
            events w' = events w @ selectedIds s \<and>
            (\<forall>i\<in>set (selectedIds s). count_list (drop (length (events w)) (events w')) i = 1) \<and>
            selectedIds s' = [] \<and> \<not> isSelectionMode s')"
proof -
  obtain calls finished where de: "delete_each deleteConversation (selectedIds s) = (calls, finished)"
    by (cases "delete_each deleteConversation (selectedIds s)")
  from de delete_each_calls [of deleteConversation "selectedIds s"]
  have calls: "calls = map (\<lambda>i. DeleteCall i True) (takeWhile deleteConversation (selectedIds s))
           @ (case dropWhile deleteConversation (selectedIds s) of
                [] \<Rightarrow> [] | i # rest \<Rightarrow> [DeleteCall i False])" by simp
  from de delete_each_finished [of deleteConversation "selectedIds s"]
  have fin: "finished = (\<forall>i\<in>set (selectedIds s). deleteConversation i)" by simp
  have once: "\<forall>i\<in>set (selectedIds s). count_list (selectedIds s) i = 1"
    using assms(2) by (simp add: distinct_count_list)
  show ?thesis
  proof (cases finished)
    case True
    with assms(1,3) de have
      "s' = s\<lparr>conversations :=
                filter (\<lambda>c. \<not> Set_has (selectedIds s) (conv_id c)) (conversations s),
              selectedIds := [], isSelectionMode := False, batchDeleteConfirm := False\<rparr>"
      "w' = w\<lparr>store_log := store_log w @ calls, events := events w @ selectedIds s\<rparr>"
      by (auto simp: confirmBatchDelete_def Let_def)
    with calls once show ?thesis by (simp add: Set_has_def)
  next
    case False
    with assms(1,3) de have
      "s' = s\<lparr>batchDeleteConfirm := False\<rparr>"
      "w' = w\<lparr>store_log := store_log w @ calls, console := console w @ [FailedToDeleteMany]\<rparr>"
      by (auto simp: confirmBatchDelete_def Let_def)
    moreover from fin False have "\<not> (\<forall>i\<in>set (selectedIds s). deleteConversation i)" by simp
    ultimately show ?thesis using calls by auto
  qed
qed

theorem batch_delete_witness:
  "selectedIds two_selected \<noteq> [] \<and> distinct (selectedIds two_selected) \<and>
   all_resolve (js ''a'') \<and> all_resolve (js ''b'') \<and>
   store_log (snd (confirmBatchDelete all_resolve (two_selected, no_effects)))
     = [DeleteCall (js ''a'') True, DeleteCall (js ''b'') True] \<and>
   conversations (fst (confirmBatchDelete all_resolve (two_selected, no_effects))) = [conv_c] \<and>
   events (snd (confirmBatchDelete all_resolve (two_selected, no_effects))) = [js ''a'', js ''b''] \<and>
   selectedIds (fst (confirmBatchDelete all_resolve (two_selected, no_effects))) = [] \<and>
   \<not> isSelectionMode (fst (confirmBatchDelete all_resolve (two_selected, no_effects))) \<and>
   \<not> batchDeleteConfirm (fst (confirmBatchDelete all_resolve (two_selected, no_effects)))"
proof -
  have h1: "selectedIds two_selected \<noteq> []" and h2: "distinct (selectedIds two_selected)"
    and h3: "\<forall>i\<in>set (selectedIds two_selected). all_resolve i"
    by (simp_all add: samples)
  have sel: "selectedIds two_selected = [js ''a'', js ''b'']"
    and cs: "conversations two_selected = [conv_a, conv_b, conv_c]"
    by (simp_all add: samples)
  have ids: "conv_id conv_a = js ''a''" "conv_id conv_b = js ''b''" "conv_id conv_c = js ''c''"
    by (simp_all add: samples)
  have ev: "events no_effects = []" "store_log no_effects = []"
    by (simp_all add: no_effects_def)
  show ?thesis
    using h1 h2 h3 batch_delete [OF h1 h2, of all_resolve no_effects
        "fst (confirmBatchDelete all_resolve (two_selected, no_effects))"
        "snd (confirmBatchDelete all_resolve (two_selected, no_effects))"]
    by (simp add: sel cs ids ev all_resolve_def)
qed

subsection \<open>Selection\<close>

text \<open>
  Claim C3 as stated fails: \<open>toggleSelectItem\<close> has no guard, and called on the
  freshly mounted hook it leaves an identifier selected while selection mode is off.
\<close>

theorem selection_outside_mode_counterexample:
  "reachable (toggleSelectItem (js ''a'') (initial_state, no_effects)) \<and>
   selectedIds (fst (toggleSelectItem (js ''a'') (initial_state, no_effects))) = [js ''a''] \<and>
   \<not> isSelectionMode (fst (toggleSelectItem (js ''a'') (initial_state, no_effects)))"
proof -
  have "reachable (perform (ToggleSelectItem (js ''a'')) (initial_state, no_effects))"
    by (rule reachable.acted) (rule reachable.mounted)
  then show ?thesis
    by (simp add: toggleSelectItem_def initial_state_def Set_has_def Set_add_def)
qed

text \<open>
  Claim C3, amended. In every state reached with \<open>toggleSelectItem\<close> and
  \<open>selectAll\<close> called only while selection mode is active, as the page calls them,
  the selection is non-empty only while selection mode is active;
  \<open>toggleSelectionMode\<close>, in either direction, and a batch delete all of whose store
  deletions resolve leave the selection empty.
\<close>

theorem selection_only_in_mode:
  "(page_reachable (s, w) \<longrightarrow> (selectedIds s \<noteq> [] \<longrightarrow> isSelectionMode s)) \<and>
   selectedIds (fst (toggleSelectionMode (s, w))) = [] \<and>
   ((\<forall>i\<in>set (selectedIds s). deleteConversation i) \<longrightarrow>
      selectedIds (fst (confirmBatchDelete deleteConversation (s, w))) = [])"
proof (intro conjI impI)
  assume "page_reachable (s, w)"
  from page_reachable_selection [OF this] show "selectedIds s \<noteq> [] \<Longrightarrow> isSelectionMode s" by simp
next
  show "selectedIds (fst (toggleSelectionMode (s, w))) = []"
    by (simp add: toggleSelectionMode_def)
next
  assume "\<forall>i\<in>set (selectedIds s). deleteConversation i"
  then have "snd (delete_each deleteConversation (selectedIds s))"
    by (simp add: delete_each_finished)
  then show "selectedIds (fst (confirmBatchDelete deleteConversation (s, w))) = []"
    by (auto simp: confirmBatchDelete_def Let_def split: prod.splits)
qed

theorem selection_only_in_mode_witness:
  "page_reachable (toggleSelectItem (js ''a'') (toggleSelectionMode (initial_state, no_effects))) \<and>
   selectedIds (fst (toggleSelectItem (js ''a'') (toggleSelectionMode (initial_state, no_effects))))
     = [js ''a''] \<and>
   isSelectionMode (fst (toggleSelectItem (js ''a'') (toggleSelectionMode (initial_state, no_effects)))) \<and>
   selectedIds (fst (toggleSelectionMode (two_selected, no_effects))) = [] \<and>
   all_resolve (js ''a'') \<and> all_resolve (js ''b'') \<and>
   selectedIds (fst (confirmBatchDelete all_resolve (two_selected, no_effects))) = []"
proof -
  let ?h1 = "perform ToggleSelectionMode (initial_state, no_effects)"
  let ?h2 = "perform (ToggleSelectItem (js ''a'')) ?h1"
  have r1: "page_reachable ?h1"
    by (rule page_reachable.page_acted) (simp_all add: page_reachable.page_mounted)
  have "page_reachable ?h2"
    by (rule page_reachable.page_acted [OF r1])
      (simp add: toggleSelectionMode_def initial_state_def)
  then have r2: "page_reachable (toggleSelectItem (js ''a'') (toggleSelectionMode (initial_state, no_effects)))"
    by simp
  have sel: "selectedIds (fst (toggleSelectItem (js ''a'') (toggleSelectionMode (initial_state, no_effects))))
     = [js ''a'']"
    by (simp add: toggleSelectItem_def toggleSelectionMode_def initial_state_def Set_has_def Set_add_def)
  have h3: "\<forall>i\<in>set (selectedIds two_selected). all_resolve i"
    by (simp add: all_resolve_def)
  show ?thesis
    using r2 sel h3
      selection_only_in_mode [of
        "fst (toggleSelectItem (js ''a'') (toggleSelectionMode (initial_state, no_effects)))"
        "snd (toggleSelectItem (js ''a'') (toggleSelectionMode (initial_state, no_effects)))"
        all_resolve]
      selection_only_in_mode [of two_selected no_effects all_resolve]
    by (simp add: all_resolve_def)
qed

end
